theory Spec2Isabelle
  imports Main "HOL-Library.Word" "HOL-Library.Multiset"
begin

unbundle bit_operations_syntax

section \<open>The data type introspection services of libuavcan\<close>

text \<open>
  The development follows \<^verbatim>\<open>uavcan/protocol/data_type_info_provider.hpp\<close>: the class
  \<^verbatim>\<open>DataTypeInfoProvider\<close> with its two request handlers and \<^verbatim>\<open>start()\<close>.
  The handlers receive the request by constant reference and the response by mutable
  reference; here a handler is a function from the request and the response as the caller
  passes it to the response as the handler leaves it.
\<close>

subsection \<open>Data model\<close>

text \<open>
  \<^verbatim>\<open>DataTypeKind\<close> is an enumeration with the enumerators \<^verbatim>\<open>DataTypeKindService\<close> and
  \<^verbatim>\<open>DataTypeKindMessage\<close>. The handlers obtain a kind by the cast
  \<^verbatim>\<open>DataTypeKind(request.kind.value)\<close> from an 8-bit field, so a kind can also hold a
  value that is neither enumerator: \<open>DataTypeKindOther v\<close> stands for such a raw value.
\<close>

datatype DataTypeKind =
    DataTypeKindService
  | DataTypeKindMessage
  | DataTypeKindOther "8 word"

text \<open>What the handlers read of a \<^verbatim>\<open>DataTypeDescriptor\<close>, named after its accessors.\<close>

record DataTypeDescriptor =
  getKind :: DataTypeKind
  getID :: "16 word"
  getSignature :: "64 word"
  getFullName :: string

text \<open>
  \<^verbatim>\<open>protocol::ComputeAggregateTypeSignature\<close>: the request fields \<^verbatim>\<open>kind\<close> and
  \<^verbatim>\<open>known_ids\<close>, the response fields \<^verbatim>\<open>aggregate_signature\<close> and
  \<^verbatim>\<open>mutually_known_ids\<close>. The two masks are dynamic arrays of bits.
\<close>

record CATS_Request =
  cats_kind :: DataTypeKind
  known_ids :: "bool list"

record CATS_Response =
  aggregate_signature :: "64 word"
  mutually_known_ids :: "bool list"

text \<open>
  \<^verbatim>\<open>protocol::GetDataTypeInfo\<close>: the request fields \<^verbatim>\<open>id\<close>, \<^verbatim>\<open>kind\<close>,
  \<^verbatim>\<open>name\<close> and the response fields \<^verbatim>\<open>signature\<close>, \<^verbatim>\<open>id\<close>, \<^verbatim>\<open>kind\<close>,
  \<^verbatim>\<open>mask\<close>, \<^verbatim>\<open>name\<close>.
\<close>

record GDTI_Request =
  req_id :: "16 word"
  req_kind :: DataTypeKind
  req_name :: string

record GDTI_Response =
  rsp_signature :: "64 word"
  rsp_id :: "16 word"
  rsp_kind :: DataTypeKind
  rsp_mask :: "8 word"
  rsp_name :: string

text \<open>
  The constants \<^verbatim>\<open>protocol::GetDataTypeInfo::Response::MASK_*\<close> are declared in a
  generated header; the handlers take them as a parameter.
\<close>

record MaskConstants =
  MASK_KNOWN :: "8 word"
  MASK_SUBSCRIBED :: "8 word"
  MASK_PUBLISHING :: "8 word"
  MASK_SERVING :: "8 word"

text \<open>
  The \<^verbatim>\<open>Dispatcher\<close> of the node, read through \<^verbatim>\<open>hasServer\<close>,
  \<^verbatim>\<open>hasSubscriber\<close> and \<^verbatim>\<open>hasPublisher\<close>: three predicates on a data type id.
\<close>

record Dispatcher =
  hasServer :: "16 word \<Rightarrow> bool"
  hasSubscriber :: "16 word \<Rightarrow> bool"
  hasPublisher :: "16 word \<Rightarrow> bool"

subsection \<open>The global data type registry\<close>

text \<open>
  \<^verbatim>\<open>GlobalDataTypeRegistry\<close> is the catalogue of the registered descriptors.
\<close>

type_synonym GlobalDataTypeRegistry = "DataTypeDescriptor list"

text \<open>
  Modelled from the spec: \<^verbatim>\<open>GlobalDataTypeRegistry::find(kind, id)\<close>, which is not part
  of the file. The registry is addressable by (kind, numeric id); an unknown (kind, id)
  yields "not found".
\<close>

definition find_by_id ::
  "GlobalDataTypeRegistry \<Rightarrow> DataTypeKind \<Rightarrow> 16 word \<Rightarrow> DataTypeDescriptor option" where
  "find_by_id reg kind dtid = List.find (\<lambda>d. getKind d = kind \<and> getID d = dtid) reg"

text \<open>
  Modelled from the spec: \<^verbatim>\<open>GlobalDataTypeRegistry::find(name)\<close>, which is not part of
  the file. The registry is addressable by full name; an unknown name yields "not found".
\<close>

definition find_by_name ::
  "GlobalDataTypeRegistry \<Rightarrow> string \<Rightarrow> DataTypeDescriptor option" where
  "find_by_name reg nm = List.find (\<lambda>d. getFullName d = nm) reg"

text \<open>
  Modelled from the spec: \<^verbatim>\<open>GlobalDataTypeRegistry::computeAggregateSignature\<close>, which
  is not part of the file. For every id in the normalized id-space (the positions of the
  mask it is given) the registry is asked whether a descriptor for (kind, id) exists; the
  aggregate is the combination, by a fixed mixing function over 64-bit values, of the
  signatures of the ids present. The mask's bits are not read and the mask is not changed.
  The mixing function \<open>mix\<close> and the value \<open>s0\<close> of the empty combination are parameters.
\<close>

definition computeAggregateSignature ::
  "(64 word \<Rightarrow> 64 word \<Rightarrow> 64 word) \<Rightarrow> 64 word \<Rightarrow> GlobalDataTypeRegistry \<Rightarrow>
   DataTypeKind \<Rightarrow> bool list \<Rightarrow> 64 word" where
  "computeAggregateSignature mix s0 reg kind id_mask =
     fold (\<lambda>i acc. case find_by_id reg kind (of_nat i) of
                      None \<Rightarrow> acc
                    | Some d \<Rightarrow> mix acc (getSignature d))
          [0 ..< length id_mask] s0"

subsection \<open>The handlers\<close>

definition isValidDataTypeKind :: "DataTypeKind \<Rightarrow> bool" where
  "isValidDataTypeKind kind \<longleftrightarrow> kind = DataTypeKindMessage \<or> kind = DataTypeKindService"

text \<open>
  Modelled from the spec: \<^verbatim>\<open>resize\<close> of the array type of the masks, which is not
  part of the file. Positions beyond the length supplied are unset (zero-extension), and
  positions beyond the new length are discarded. The capacity of the array type is not
  modelled: a mask is a list of any length.
\<close>

definition resize :: "nat \<Rightarrow> bool list \<Rightarrow> bool list" where
  "resize n xs = take n xs @ replicate (n - length xs) False"

text \<open>
  The new length of the mask is
  \<^verbatim>\<open>static_cast<uint16_t>(DataTypeID::getMaxValueForDataTypeKind(kind).get() + 1U)\<close>.
  The largest id of a kind is declared outside the file and is the parameter \<open>maxv\<close>; the
  sum is unsigned and the cast keeps its low 16 bits.
\<close>

definition normalizedLength :: "(DataTypeKind \<Rightarrow> nat) \<Rightarrow> DataTypeKind \<Rightarrow> nat" where
  "normalizedLength maxv kind = (maxv kind + 1) mod 2 ^ 16"

definition handleComputeAggregateTypeSignatureRequest ::
  "(64 word \<Rightarrow> 64 word \<Rightarrow> 64 word) \<Rightarrow> 64 word \<Rightarrow> (DataTypeKind \<Rightarrow> nat) \<Rightarrow>
   GlobalDataTypeRegistry \<Rightarrow> CATS_Request \<Rightarrow> CATS_Response \<Rightarrow> CATS_Response" where
  "handleComputeAggregateTypeSignatureRequest mix s0 maxv reg request response =
     (let kind = cats_kind request in
      if \<not> isValidDataTypeKind kind then response
      else
        let response = response\<lparr>mutually_known_ids := known_ids request\<rparr>;
            response = response\<lparr>mutually_known_ids :=
                         resize (normalizedLength maxv kind) (mutually_known_ids response)\<rparr>
        in response\<lparr>aggregate_signature :=
             computeAggregateSignature mix s0 reg kind (mutually_known_ids response)\<rparr>)"

text \<open>
  How \<^verbatim>\<open>handleGetDataTypeInfoRequest\<close> leaves: by the early return for an invalid kind,
  by the early return for a descriptor that was not found, at its end with the response
  filled, or through \<^verbatim>\<open>UAVCAN_ASSERT(0)\<close> in the last branch.
\<close>

datatype Exit = ReturnInvalidKind | ReturnNotFound | ReturnFilled | AssertUnknownKind

text \<open>
  \<^verbatim>\<open>request.name.c_str()\<close> hands the name to the registry as a C string, which ends at
  the first zero byte.
\<close>

definition c_str :: "string \<Rightarrow> string" where
  "c_str s = takeWhile (\<lambda>c. c \<noteq> CHR 0x00) s"

text \<open>The second half of the handler, from the test \<^verbatim>\<open>desc == NULL\<close> on.\<close>

definition fillResponse ::
  "MaskConstants \<Rightarrow> Dispatcher \<Rightarrow> DataTypeDescriptor option \<Rightarrow> GDTI_Response \<Rightarrow>
   Exit \<times> GDTI_Response" where
  "fillResponse mc dispatcher desc response =
     (case desc of
        None \<Rightarrow> (ReturnNotFound, response)
      | Some d \<Rightarrow>
          let response = response\<lparr>rsp_signature := getSignature d\<rparr>;
              response = response\<lparr>rsp_id := getID d\<rparr>;
              response = response\<lparr>rsp_kind := getKind d\<rparr>;
              response = response\<lparr>rsp_mask := MASK_KNOWN mc\<rparr>;
              response = response\<lparr>rsp_name := getFullName d\<rparr>
          in
            if getKind d = DataTypeKindService then
              (ReturnFilled,
               if hasServer dispatcher (getID d)
               then response\<lparr>rsp_mask := rsp_mask response OR MASK_SERVING mc\<rparr>
               else response)
            else if getKind d = DataTypeKindMessage then
              (let response =
                     (if hasSubscriber dispatcher (getID d)
                      then response\<lparr>rsp_mask := rsp_mask response OR MASK_SUBSCRIBED mc\<rparr>
                      else response);
                   response =
                     (if hasPublisher dispatcher (getID d)
                      then response\<lparr>rsp_mask := rsp_mask response OR MASK_PUBLISHING mc\<rparr>
                      else response)
               in (ReturnFilled, response))
            else (AssertUnknownKind, response))"

definition handleGetDataTypeInfoRequest ::
  "MaskConstants \<Rightarrow> GlobalDataTypeRegistry \<Rightarrow> Dispatcher \<Rightarrow> GDTI_Request \<Rightarrow>
   GDTI_Response \<Rightarrow> Exit \<times> GDTI_Response" where
  "handleGetDataTypeInfoRequest mc reg dispatcher request response =
     (if req_name request = [] then
        let response = response\<lparr>rsp_id := req_id request\<rparr>;
            response = response\<lparr>rsp_kind := req_kind request\<rparr>
        in
          if \<not> isValidDataTypeKind (req_kind request) then (ReturnInvalidKind, response)
          else fillResponse mc dispatcher
                 (find_by_id reg (req_kind request) (req_id request)) response
      else
        let response = response\<lparr>rsp_name := req_name request\<rparr>
        in fillResponse mc dispatcher (find_by_name reg (c_str (req_name request))) response)"

subsection \<open>Starting the provider\<close>

text \<open>
  \<^verbatim>\<open>ServiceServer\<close> is declared outside the file. Of a server the model keeps whether
  its handler is registered with the dispatch mechanism. What \<^verbatim>\<open>ServiceServer::start\<close>
  returns and how it leaves the server is a parameter of \<open>start\<close> below.
\<close>

record ServiceServer =
  handler_registered :: bool

text \<open>
  Modelled from the spec: \<^verbatim>\<open>ServiceServer::stop\<close>, which is not part of the file. It
  unregisters the handler of the server from the dispatch mechanism.
\<close>

definition ServiceServer_stop :: "ServiceServer \<Rightarrow> ServiceServer" where
  "ServiceServer_stop srv = srv\<lparr>handler_registered := False\<rparr>"

text \<open>The members \<^verbatim>\<open>cats_srv_\<close> and \<^verbatim>\<open>gdti_srv_\<close> of the class.\<close>

record DataTypeInfoProvider =
  cats_srv :: ServiceServer
  gdti_srv :: ServiceServer

text \<open>The code after the label \<^verbatim>\<open>fail\<close>.\<close>

definition start_fail :: "int \<Rightarrow> DataTypeInfoProvider \<Rightarrow> int \<times> DataTypeInfoProvider" where
  "start_fail res this =
     (let this = this\<lparr>cats_srv := ServiceServer_stop (cats_srv this)\<rparr>;
          this = this\<lparr>gdti_srv := ServiceServer_stop (gdti_srv this)\<rparr>
      in (res, this))"

definition start ::
  "(ServiceServer \<Rightarrow> int \<times> ServiceServer) \<Rightarrow> (ServiceServer \<Rightarrow> int \<times> ServiceServer) \<Rightarrow>
   DataTypeInfoProvider \<Rightarrow> int \<times> DataTypeInfoProvider" where
  "start cats_start gdti_start this =
     (let (res, srv) = cats_start (cats_srv this);
          this = this\<lparr>cats_srv := srv\<rparr>
      in if res < 0 then start_fail res this
         else
           let (res, srv) = gdti_start (gdti_srv this);
               this = this\<lparr>gdti_srv := srv\<rparr>
           in if res < 0 then start_fail res this
              else (res, this))"

subsection \<open>The handlers on the state of the node\<close>

text \<open>
  The two handlers once more, now with the state \<open>w\<close> of the node passed through them,
  so that successive invocations can be spoken about. The state stands for everything
  outside the handler: the registry singleton, the node with its dispatcher, the
  provider object. Every call that a handler makes outside its class is an operation that
  takes the state and returns its answer together with the state it leaves. The
  operations are parameters. \<^verbatim>\<open>computeAggregateSignature\<close> is passed the mask of the
  response by reference, so its answer is the signature together with the mask as the
  call leaves it.
\<close>

record 'w Calls =
  call_find_id :: "DataTypeKind \<Rightarrow> 16 word \<Rightarrow> 'w \<Rightarrow> DataTypeDescriptor option \<times> 'w"
  call_find_name :: "string \<Rightarrow> 'w \<Rightarrow> DataTypeDescriptor option \<times> 'w"
  call_computeAggregateSignature ::
    "DataTypeKind \<Rightarrow> bool list \<Rightarrow> 'w \<Rightarrow> (64 word \<times> bool list) \<times> 'w"
  call_hasServer :: "16 word \<Rightarrow> 'w \<Rightarrow> bool \<times> 'w"
  call_hasSubscriber :: "16 word \<Rightarrow> 'w \<Rightarrow> bool \<times> 'w"
  call_hasPublisher :: "16 word \<Rightarrow> 'w \<Rightarrow> bool \<times> 'w"

definition handleComputeAggregateTypeSignatureRequest_st ::
  "'w Calls \<Rightarrow> (DataTypeKind \<Rightarrow> nat) \<Rightarrow> CATS_Request \<Rightarrow> CATS_Response \<Rightarrow> 'w \<Rightarrow>
   CATS_Response \<times> 'w" where
  "handleComputeAggregateTypeSignatureRequest_st calls maxv request response w =
     (let kind = cats_kind request in
      if \<not> isValidDataTypeKind kind then (response, w)
      else
        let response = response\<lparr>mutually_known_ids := known_ids request\<rparr>;
            response = response\<lparr>mutually_known_ids :=
                         resize (normalizedLength maxv kind) (mutually_known_ids response)\<rparr>;
            ((sig, ids), w) =
              call_computeAggregateSignature calls kind (mutually_known_ids response) w;
            response = response\<lparr>mutually_known_ids := ids\<rparr>
        in (response\<lparr>aggregate_signature := sig\<rparr>, w))"

text \<open>The second half of \<^verbatim>\<open>handleGetDataTypeInfoRequest\<close>, as above.\<close>

definition fillResponse_st ::
  "'w Calls \<Rightarrow> MaskConstants \<Rightarrow> DataTypeDescriptor option \<Rightarrow> GDTI_Response \<Rightarrow> 'w \<Rightarrow>
   (Exit \<times> GDTI_Response) \<times> 'w" where
  "fillResponse_st calls mc desc response w =
     (case desc of
        None \<Rightarrow> ((ReturnNotFound, response), w)
      | Some d \<Rightarrow>
          let response = response\<lparr>rsp_signature := getSignature d\<rparr>;
              response = response\<lparr>rsp_id := getID d\<rparr>;
              response = response\<lparr>rsp_kind := getKind d\<rparr>;
              response = response\<lparr>rsp_mask := MASK_KNOWN mc\<rparr>;
              response = response\<lparr>rsp_name := getFullName d\<rparr>
          in
            if getKind d = DataTypeKindService then
              (let (served, w) = call_hasServer calls (getID d) w
               in ((ReturnFilled,
                    if served
                    then response\<lparr>rsp_mask := rsp_mask response OR MASK_SERVING mc\<rparr>
                    else response), w))
            else if getKind d = DataTypeKindMessage then
              (let (subscribed, w) = call_hasSubscriber calls (getID d) w;
                   response =
                     (if subscribed
                      then response\<lparr>rsp_mask := rsp_mask response OR MASK_SUBSCRIBED mc\<rparr>
                      else response);
                   (publishing, w) = call_hasPublisher calls (getID d) w;
                   response =
                     (if publishing
                      then response\<lparr>rsp_mask := rsp_mask response OR MASK_PUBLISHING mc\<rparr>
                      else response)
               in ((ReturnFilled, response), w))
            else ((AssertUnknownKind, response), w))"

definition handleGetDataTypeInfoRequest_st ::
  "'w Calls \<Rightarrow> MaskConstants \<Rightarrow> GDTI_Request \<Rightarrow> GDTI_Response \<Rightarrow> 'w \<Rightarrow>
   (Exit \<times> GDTI_Response) \<times> 'w" where
  "handleGetDataTypeInfoRequest_st calls mc request response w =
     (if req_name request = [] then
        let response = response\<lparr>rsp_id := req_id request\<rparr>;
            response = response\<lparr>rsp_kind := req_kind request\<rparr>
        in
          if \<not> isValidDataTypeKind (req_kind request) then ((ReturnInvalidKind, response), w)
          else
            let (desc, w) = call_find_id calls (req_kind request) (req_id request) w
            in fillResponse_st calls mc desc response w
      else
        let response = response\<lparr>rsp_name := req_name request\<rparr>;
            (desc, w) = call_find_name calls (c_str (req_name request)) w
        in fillResponse_st calls mc desc response w)"

subsection \<open>Notions used by the properties\<close>

text \<open>All bits of the constant \<open>b\<close> are set in the mask \<open>m\<close>.\<close>

definition bitSet :: "8 word \<Rightarrow> 8 word \<Rightarrow> bool" where
  "bitSet m b \<longleftrightarrow> m AND b = b"

text \<open>
  The four mask constants name different bits: none of them is zero and no two of them
  have a bit in common.
\<close>

definition distinctBits :: "MaskConstants \<Rightarrow> bool" where
  "distinctBits mc \<longleftrightarrow>
     MASK_KNOWN mc \<noteq> 0 \<and> MASK_SUBSCRIBED mc \<noteq> 0 \<and>
     MASK_PUBLISHING mc \<noteq> 0 \<and> MASK_SERVING mc \<noteq> 0 \<and>
     MASK_KNOWN mc AND MASK_SUBSCRIBED mc = 0 \<and>
     MASK_KNOWN mc AND MASK_PUBLISHING mc = 0 \<and>
     MASK_KNOWN mc AND MASK_SERVING mc = 0 \<and>
     MASK_SUBSCRIBED mc AND MASK_PUBLISHING mc = 0 \<and>
     MASK_SUBSCRIBED mc AND MASK_SERVING mc = 0 \<and>
     MASK_PUBLISHING mc AND MASK_SERVING mc = 0"

text \<open>
  The descriptor that \<^verbatim>\<open>handleGetDataTypeInfoRequest\<close> holds in \<^verbatim>\<open>desc\<close> when it
  reaches the part that fills the response: the one found by (kind, id) for a query with
  an empty name and a valid kind, the one found by name for a query with a name.
\<close>

definition foundDescriptor ::
  "GlobalDataTypeRegistry \<Rightarrow> GDTI_Request \<Rightarrow> DataTypeDescriptor option" where
  "foundDescriptor reg request =
     (if req_name request = [] then
        if isValidDataTypeKind (req_kind request)
        then find_by_id reg (req_kind request) (req_id request)
        else None
      else find_by_name reg (c_str (req_name request)))"


text \<open>
  The id ranges of the scenario of the specification in which the largest Message id is
  65535; Service ids have a smaller range.
\<close>

definition scenarioMaxValue :: "DataTypeKind \<Rightarrow> nat" where
  "scenarioMaxValue kind = (if kind = DataTypeKindMessage then 65535 else 255)"

text \<open>Small id ranges and a small registry, for evaluating the handlers.\<close>

definition smallMaxValue :: "DataTypeKind \<Rightarrow> nat" where
  "smallMaxValue kind = (if kind = DataTypeKindMessage then 7 else 3)"

definition sampleRegistry :: GlobalDataTypeRegistry where
  "sampleRegistry =
     [\<lparr>getKind = DataTypeKindMessage, getID = 5, getSignature = 0xAABBCCDD11223344,
       getFullName = ''foo.Bar''\<rparr>,
      \<lparr>getKind = DataTypeKindService, getID = 2, getSignature = 0x0102030405060708,
       getFullName = ''foo.Srv''\<rparr>,
      \<lparr>getKind = DataTypeKindMessage, getID = 1, getSignature = 0x1111111111111111,
       getFullName = ''foo.Baz''\<rparr>]"

definition sampleMaskConstants :: MaskConstants where
  "sampleMaskConstants =
     \<lparr>MASK_KNOWN = 1, MASK_SUBSCRIBED = 2, MASK_PUBLISHING = 4, MASK_SERVING = 8\<rparr>"

definition sampleDispatcher :: Dispatcher where
  "sampleDispatcher =
     \<lparr>hasServer = (\<lambda>i. i = 2), hasSubscriber = (\<lambda>i. i = 5), hasPublisher = (\<lambda>i. i = 1)\<rparr>"

text \<open>
  Responses with empty fields, as a caller may pass them. The properties below hold for
  every response passed in.
\<close>

definition blankGDTIResponse :: GDTI_Response where
  "blankGDTIResponse =
     \<lparr>rsp_signature = 0, rsp_id = 0, rsp_kind = DataTypeKindService, rsp_mask = 0,
      rsp_name = []\<rparr>"

definition blankCATSResponse :: CATS_Response where
  "blankCATSResponse = \<lparr>aggregate_signature = 0, mutually_known_ids = []\<rparr>"

text \<open>
  The status of the registry and of the dispatcher in a state of the node: what each of
  their operations answers there.
\<close>

record Answers =
  ans_find_id :: "DataTypeKind \<Rightarrow> 16 word \<Rightarrow> DataTypeDescriptor option"
  ans_find_name :: "string \<Rightarrow> DataTypeDescriptor option"
  ans_computeAggregateSignature :: "DataTypeKind \<Rightarrow> bool list \<Rightarrow> 64 word \<times> bool list"
  ans_hasServer :: "16 word \<Rightarrow> bool"
  ans_hasSubscriber :: "16 word \<Rightarrow> bool"
  ans_hasPublisher :: "16 word \<Rightarrow> bool"

definition observed :: "'w Calls \<Rightarrow> 'w \<Rightarrow> Answers" where
  "observed calls w =
     \<lparr>ans_find_id = (\<lambda>kind dtid. fst (call_find_id calls kind dtid w)),
      ans_find_name = (\<lambda>nm. fst (call_find_name calls nm w)),
      ans_computeAggregateSignature =
        (\<lambda>kind ids. fst (call_computeAggregateSignature calls kind ids w)),
      ans_hasServer = (\<lambda>dtid. fst (call_hasServer calls dtid w)),
      ans_hasSubscriber = (\<lambda>dtid. fst (call_hasSubscriber calls dtid w)),
      ans_hasPublisher = (\<lambda>dtid. fst (call_hasPublisher calls dtid w))\<rparr>"

text \<open>No call to the registry or to the dispatcher changes their status.\<close>

definition callsLeaveStatusUnchanged :: "'w Calls \<Rightarrow> bool" where
  "callsLeaveStatusUnchanged calls \<longleftrightarrow>
     (\<forall>kind dtid w. observed calls (snd (call_find_id calls kind dtid w)) = observed calls w) \<and>
     (\<forall>nm w. observed calls (snd (call_find_name calls nm w)) = observed calls w) \<and>
     (\<forall>kind ids w. observed calls (snd (call_computeAggregateSignature calls kind ids w))
                      = observed calls w) \<and>
     (\<forall>dtid w. observed calls (snd (call_hasServer calls dtid w)) = observed calls w) \<and>
     (\<forall>dtid w. observed calls (snd (call_hasSubscriber calls dtid w)) = observed calls w) \<and>
     (\<forall>dtid w. observed calls (snd (call_hasPublisher calls dtid w)) = observed calls w)"

text \<open>
  The status given by a registry as a list of descriptors and a dispatcher as three
  predicates, and operations that answer from them, leave the mask as it is and count
  the calls in the state.
\<close>

definition answersOf ::
  "(64 word \<Rightarrow> 64 word \<Rightarrow> 64 word) \<Rightarrow> 64 word \<Rightarrow> GlobalDataTypeRegistry \<Rightarrow> Dispatcher \<Rightarrow>
   Answers" where
  "answersOf mix s0 reg dispatcher =
     \<lparr>ans_find_id = find_by_id reg,
      ans_find_name = find_by_name reg,
      ans_computeAggregateSignature =
        (\<lambda>kind ids. (computeAggregateSignature mix s0 reg kind ids, ids)),
      ans_hasServer = hasServer dispatcher,
      ans_hasSubscriber = hasSubscriber dispatcher,
      ans_hasPublisher = hasPublisher dispatcher\<rparr>"

definition countingCalls ::
  "(64 word \<Rightarrow> 64 word \<Rightarrow> 64 word) \<Rightarrow> 64 word \<Rightarrow> GlobalDataTypeRegistry \<Rightarrow> Dispatcher \<Rightarrow>
   nat Calls" where
  "countingCalls mix s0 reg dispatcher =
     \<lparr>call_find_id = (\<lambda>kind dtid n. (find_by_id reg kind dtid, Suc n)),
      call_find_name = (\<lambda>nm n. (find_by_name reg nm, Suc n)),
      call_computeAggregateSignature =
        (\<lambda>kind ids n. ((computeAggregateSignature mix s0 reg kind ids, ids), Suc n)),
      call_hasServer = (\<lambda>dtid n. (hasServer dispatcher dtid, Suc n)),
      call_hasSubscriber = (\<lambda>dtid n. (hasSubscriber dispatcher dtid, Suc n)),
      call_hasPublisher = (\<lambda>dtid n. (hasPublisher dispatcher dtid, Suc n))\<rparr>"

section \<open>Properties\<close>

subsection \<open>Invalid kind in an aggregate signature request\<close>

text \<open>
  C5. For a ComputeAggregateTypeSignature request whose kind is neither Message nor
  Service the handler writes nothing to the response: the response it leaves is the
  response it was given, mask and aggregate signature included.
\<close>

theorem cats_invalid_kind_writes_nothing:
  assumes "cats_kind request \<noteq> DataTypeKindMessage"
    and "cats_kind request \<noteq> DataTypeKindService"
  shows "handleComputeAggregateTypeSignatureRequest mix s0 maxv reg request response = response"
  using assms
  by (simp add: handleComputeAggregateTypeSignatureRequest_def isValidDataTypeKind_def)

theorem cats_invalid_kind_witness:
  "handleComputeAggregateTypeSignatureRequest (+) 0 smallMaxValue sampleRegistry
     \<lparr>cats_kind = DataTypeKindOther 7, known_ids = [True, False, True]\<rparr> blankCATSResponse
   = blankCATSResponse"
  using cats_invalid_kind_writes_nothing
    [of "\<lparr>cats_kind = DataTypeKindOther 7, known_ids = [True, False, True]\<rparr>"
        "(+)" 0 smallMaxValue sampleRegistry blankCATSResponse]
  by simp

subsection \<open>Failed queries by id\<close>

text \<open>
  C4. For a GetDataTypeInfo query by id (empty name) whose kind is invalid or for which
  the registry has no descriptor of that (kind, id), the handler returns early and the
  response it leaves differs from the response it was given in the fields id and kind
  only, which hold the id and the kind of the query; signature, name and mask are as they
  were passed in.
\<close>

theorem gdti_id_query_failure_echoes_id_kind:
  assumes "req_name request = []"
    and "\<not> isValidDataTypeKind (req_kind request)
         \<or> find_by_id reg (req_kind request) (req_id request) = None"
  shows "snd (handleGetDataTypeInfoRequest mc reg dispatcher request response)
           = response\<lparr>rsp_id := req_id request, rsp_kind := req_kind request\<rparr>
       \<and> rsp_signature (snd (handleGetDataTypeInfoRequest mc reg dispatcher request response))
           = rsp_signature response
       \<and> rsp_name (snd (handleGetDataTypeInfoRequest mc reg dispatcher request response))
           = rsp_name response
       \<and> rsp_mask (snd (handleGetDataTypeInfoRequest mc reg dispatcher request response))
           = rsp_mask response
       \<and> fst (handleGetDataTypeInfoRequest mc reg dispatcher request response)
           = (if isValidDataTypeKind (req_kind request) then ReturnNotFound
              else ReturnInvalidKind)"
  using assms
  by (auto simp add: handleGetDataTypeInfoRequest_def fillResponse_def Let_def)

theorem gdti_id_query_failure_witness:
  "handleGetDataTypeInfoRequest sampleMaskConstants sampleRegistry sampleDispatcher
      \<lparr>req_id = 9999, req_kind = DataTypeKindService, req_name = []\<rparr> blankGDTIResponse
    = (ReturnNotFound, blankGDTIResponse\<lparr>rsp_id := 9999, rsp_kind := DataTypeKindService\<rparr>)"
  using gdti_id_query_failure_echoes_id_kind
    [of "\<lparr>req_id = 9999, req_kind = DataTypeKindService, req_name = []\<rparr>"
        sampleRegistry sampleMaskConstants sampleDispatcher blankGDTIResponse]
  by (simp add: find_by_id_def sampleRegistry_def isValidDataTypeKind_def prod_eq_iff)

subsection \<open>Failed queries by name\<close>

text \<open>
  C6. For a GetDataTypeInfo query by name (non-empty name) whose name the registry does
  not find, the handler returns early and the response it leaves differs from the response
  it was given in the field name only, which holds the name of the query; id, kind,
  signature and mask are as they were passed in.
\<close>

theorem gdti_name_query_failure_echoes_name:
  assumes "req_name request \<noteq> []"
    and "find_by_name reg (c_str (req_name request)) = None"
  shows "handleGetDataTypeInfoRequest mc reg dispatcher request response
           = (ReturnNotFound, response\<lparr>rsp_name := req_name request\<rparr>)"
  using assms
  by (simp add: handleGetDataTypeInfoRequest_def fillResponse_def)

theorem gdti_name_query_failure_witness:
  "handleGetDataTypeInfoRequest sampleMaskConstants sampleRegistry sampleDispatcher
      \<lparr>req_id = 5, req_kind = DataTypeKindMessage, req_name = ''foo.Nope''\<rparr> blankGDTIResponse
    = (ReturnNotFound, blankGDTIResponse\<lparr>rsp_name := ''foo.Nope''\<rparr>)"
  using gdti_name_query_failure_echoes_name
    [of "\<lparr>req_id = 5, req_kind = DataTypeKindMessage, req_name = ''foo.Nope''\<rparr>"
        sampleRegistry sampleMaskConstants sampleDispatcher blankGDTIResponse]
  by (simp add: find_by_name_def sampleRegistry_def c_str_def)

subsection \<open>Auxiliary facts about the handlers\<close>

lemma bitSet_self: "bitSet a a"
  by (simp add: bitSet_def)

lemma and_or_absorb_left: "(a OR b) AND c = (a AND c) OR (b AND c)" for a b c :: "8 word"
  by (rule bit_eqI) (auto simp add: bit_and_iff bit_or_iff)

lemma bitSet_or_left: "bitSet a c \<Longrightarrow> bitSet (a OR b) c"
  unfolding bitSet_def and_or_absorb_left
  by (rule bit_eqI) (auto simp add: bit_and_iff bit_or_iff)

lemma bitSet_or_right: "bitSet b c \<Longrightarrow> bitSet (a OR b) c"
  unfolding bitSet_def and_or_absorb_left
  by (rule bit_eqI) (auto simp add: bit_and_iff bit_or_iff)

lemma disjoint_or: "a AND c = 0 \<Longrightarrow> b AND c = 0 \<Longrightarrow> (a OR b) AND c = 0" for a b c :: "8 word"
  by (simp add: and_or_absorb_left)

lemma not_bitSet_disjoint: "a AND c = 0 \<Longrightarrow> c \<noteq> 0 \<Longrightarrow> \<not> bitSet a c"
  by (auto simp add: bitSet_def)

lemma handler_found:
  assumes "foundDescriptor reg request = Some d"
  shows "handleGetDataTypeInfoRequest mc reg dispatcher request response =
     fillResponse mc dispatcher (Some d)
           (if req_name request = []
            then response\<lparr>rsp_id := req_id request, rsp_kind := req_kind request\<rparr>
            else response\<lparr>rsp_name := req_name request\<rparr>)"
  using assms
  by (auto simp add: handleGetDataTypeInfoRequest_def foundDescriptor_def split: if_splits)

lemma fillResponse_mask:
  "rsp_mask (snd (fillResponse mc dispatcher (Some d) response)) =
     (if getKind d = DataTypeKindService then
        (if hasServer dispatcher (getID d) then MASK_KNOWN mc OR MASK_SERVING mc
         else MASK_KNOWN mc)
      else if getKind d = DataTypeKindMessage then
        (if hasSubscriber dispatcher (getID d) then
           (if hasPublisher dispatcher (getID d)
            then MASK_KNOWN mc OR MASK_SUBSCRIBED mc OR MASK_PUBLISHING mc
            else MASK_KNOWN mc OR MASK_SUBSCRIBED mc)
         else
           (if hasPublisher dispatcher (getID d) then MASK_KNOWN mc OR MASK_PUBLISHING mc
            else MASK_KNOWN mc))
      else MASK_KNOWN mc)"
  by (simp add: fillResponse_def Let_def ac_simps)

lemma fillResponse_fields:
  "rsp_signature (snd (fillResponse mc dispatcher (Some d) response)) = getSignature d"
  "rsp_id (snd (fillResponse mc dispatcher (Some d) response)) = getID d"
  "rsp_kind (snd (fillResponse mc dispatcher (Some d) response)) = getKind d"
  "rsp_name (snd (fillResponse mc dispatcher (Some d) response)) = getFullName d"
  by (simp_all add: fillResponse_def Let_def)

lemma fillResponse_exit:
  "fst (fillResponse mc dispatcher (Some d) response) =
     (if isValidDataTypeKind (getKind d) then ReturnFilled else AssertUnknownKind)"
  by (auto simp add: fillResponse_def Let_def isValidDataTypeKind_def)

lemma find_by_id_in_registry: "find_by_id reg kind dtid = Some d \<Longrightarrow> d \<in> set reg"
  by (auto simp add: find_by_id_def find_Some_iff)

lemma find_by_name_in_registry: "find_by_name reg nm = Some d \<Longrightarrow> d \<in> set reg"
  by (auto simp add: find_by_name_def find_Some_iff)

lemma foundDescriptor_in_registry: "foundDescriptor reg request = Some d \<Longrightarrow> d \<in> set reg"
  by (auto simp add: foundDescriptor_def split: if_splits
      dest: find_by_id_in_registry find_by_name_in_registry)

lemma handler_not_found:
  assumes "foundDescriptor reg request = None"
  shows "fst (handleGetDataTypeInfoRequest mc reg dispatcher request response)
          \<in> {ReturnInvalidKind, ReturnNotFound}"
  using assms
  by (auto simp add: handleGetDataTypeInfoRequest_def foundDescriptor_def fillResponse_def
      split: if_splits)

subsection \<open>The status mask of a found descriptor\<close>

text \<open>
  C3. Whenever getDataTypeInfo finds a descriptor, the mask of the response has the known
  bit set. If the descriptor's kind is Service, the serving bit is set iff the dispatcher
  has a server for the descriptor's id, and the subscribed and publishing bits are not
  set. If the kind is Message, the subscribed bit is set iff the dispatcher has a
  subscriber for the id, the publishing bit is set iff it has a publisher for the id, and
  the serving bit is not set. The four mask constants are taken to name different bits.
\<close>

theorem gdti_status_mask:
  assumes bits: "distinctBits mc"
    and found: "foundDescriptor reg request = Some d"
  shows "bitSet (rsp_mask (snd (handleGetDataTypeInfoRequest mc reg dispatcher request response)))
           (MASK_KNOWN mc)
       \<and> (getKind d = DataTypeKindService \<longrightarrow>
            (bitSet (rsp_mask (snd (handleGetDataTypeInfoRequest mc reg dispatcher request response)))
               (MASK_SERVING mc) \<longleftrightarrow> hasServer dispatcher (getID d))
          \<and> \<not> bitSet (rsp_mask (snd (handleGetDataTypeInfoRequest mc reg dispatcher request response)))
               (MASK_SUBSCRIBED mc)
          \<and> \<not> bitSet (rsp_mask (snd (handleGetDataTypeInfoRequest mc reg dispatcher request response)))
               (MASK_PUBLISHING mc))
       \<and> (getKind d = DataTypeKindMessage \<longrightarrow>
            (bitSet (rsp_mask (snd (handleGetDataTypeInfoRequest mc reg dispatcher request response)))
               (MASK_SUBSCRIBED mc) \<longleftrightarrow> hasSubscriber dispatcher (getID d))
          \<and> (bitSet (rsp_mask (snd (handleGetDataTypeInfoRequest mc reg dispatcher request response)))
               (MASK_PUBLISHING mc) \<longleftrightarrow> hasPublisher dispatcher (getID d))
          \<and> \<not> bitSet (rsp_mask (snd (handleGetDataTypeInfoRequest mc reg dispatcher request response)))
               (MASK_SERVING mc))"
proof -
  let ?K = "MASK_KNOWN mc" and ?S = "MASK_SUBSCRIBED mc"
  let ?P = "MASK_PUBLISHING mc" and ?V = "MASK_SERVING mc"
  let ?m = "rsp_mask (snd (handleGetDataTypeInfoRequest mc reg dispatcher request response))"
  from bits have nz: "?K \<noteq> 0" "?S \<noteq> 0" "?P \<noteq> 0" "?V \<noteq> 0"
    and dj: "?K AND ?S = 0" "?K AND ?P = 0" "?K AND ?V = 0"
            "?S AND ?P = 0" "?S AND ?V = 0" "?P AND ?V = 0"
    by (simp_all add: distinctBits_def)
  from dj have dj': "?P AND ?S = 0" "?V AND ?S = 0" "?V AND ?P = 0"
    by (simp_all add: and.commute)
  note intros = bitSet_self bitSet_or_left bitSet_or_right
  note absent = not_bitSet_disjoint disjoint_or
  have m: "?m =
     (if getKind d = DataTypeKindService then
        (if hasServer dispatcher (getID d) then ?K OR ?V else ?K)
      else if getKind d = DataTypeKindMessage then
        (if hasSubscriber dispatcher (getID d) then
           (if hasPublisher dispatcher (getID d) then ?K OR ?S OR ?P else ?K OR ?S)
         else
           (if hasPublisher dispatcher (getID d) then ?K OR ?P else ?K))
      else ?K)"
    by (simp only: handler_found [OF found] fillResponse_mask)
  have known: "bitSet ?m ?K"
    unfolding m by (simp add: intros)
  have service: "(bitSet ?m ?V \<longleftrightarrow> hasServer dispatcher (getID d)) \<and> \<not> bitSet ?m ?S
      \<and> \<not> bitSet ?m ?P" if "getKind d = DataTypeKindService"
    unfolding m using that nz dj dj' by (simp add: intros absent)
  have message: "(bitSet ?m ?S \<longleftrightarrow> hasSubscriber dispatcher (getID d))
      \<and> (bitSet ?m ?P \<longleftrightarrow> hasPublisher dispatcher (getID d)) \<and> \<not> bitSet ?m ?V"
    if "getKind d = DataTypeKindMessage"
    unfolding m using that nz dj dj' by (simp add: intros absent)
  from known service message show ?thesis by blast
qed

theorem gdti_status_mask_witness:
  "distinctBits sampleMaskConstants
   \<and> foundDescriptor sampleRegistry
         \<lparr>req_id = 2, req_kind = DataTypeKindService, req_name = []\<rparr>
       = Some \<lparr>getKind = DataTypeKindService, getID = 2, getSignature = 0x0102030405060708,
               getFullName = ''foo.Srv''\<rparr>
   \<and> rsp_mask (snd (handleGetDataTypeInfoRequest sampleMaskConstants sampleRegistry
         sampleDispatcher \<lparr>req_id = 2, req_kind = DataTypeKindService, req_name = []\<rparr>
         blankGDTIResponse)) = 9
   \<and> bitSet 9 (MASK_KNOWN sampleMaskConstants)
   \<and> bitSet 9 (MASK_SERVING sampleMaskConstants)
   \<and> hasServer sampleDispatcher 2
   \<and> \<not> bitSet 9 (MASK_SUBSCRIBED sampleMaskConstants)
   \<and> \<not> bitSet 9 (MASK_PUBLISHING sampleMaskConstants)"
proof -
  have bits: "distinctBits sampleMaskConstants"
    by (simp add: distinctBits_def sampleMaskConstants_def)
  have found: "foundDescriptor sampleRegistry
         \<lparr>req_id = 2, req_kind = DataTypeKindService, req_name = []\<rparr>
       = Some \<lparr>getKind = DataTypeKindService, getID = 2, getSignature = 0x0102030405060708,
               getFullName = ''foo.Srv''\<rparr>"
    by (simp add: foundDescriptor_def isValidDataTypeKind_def find_by_id_def sampleRegistry_def)
  have mask: "rsp_mask (snd (handleGetDataTypeInfoRequest sampleMaskConstants sampleRegistry
         sampleDispatcher \<lparr>req_id = 2, req_kind = DataTypeKindService, req_name = []\<rparr>
         blankGDTIResponse)) = 9"
    by (simp add: handleGetDataTypeInfoRequest_def fillResponse_def isValidDataTypeKind_def
        find_by_id_def sampleRegistry_def sampleDispatcher_def sampleMaskConstants_def)
  show ?thesis
    using gdti_status_mask [OF bits found, of sampleDispatcher blankGDTIResponse] bits found mask
    by (simp add: sampleDispatcher_def bitSet_def sampleMaskConstants_def)
qed

subsection \<open>Queries by name ignore id and kind\<close>

text \<open>
  C10. For a GetDataTypeInfo query with a non-empty name the id and the kind of the query
  are ignored: replacing them by any other id and kind, an invalid kind included, leaves
  the outcome and the response the same. No validity check of the kind is made on this
  branch, and whenever the registry finds the name the response is filled from the
  descriptor found.
\<close>

theorem gdti_name_query_ignores_id_and_kind:
  assumes "req_name request \<noteq> []"
  shows "handleGetDataTypeInfoRequest mc reg dispatcher
           (request\<lparr>req_id := i, req_kind := k\<rparr>) response
         = handleGetDataTypeInfoRequest mc reg dispatcher request response
       \<and> (case find_by_name reg (c_str (req_name request)) of
            None \<Rightarrow> fst (handleGetDataTypeInfoRequest mc reg dispatcher request response)
                      = ReturnNotFound
          | Some d \<Rightarrow>
              fst (handleGetDataTypeInfoRequest mc reg dispatcher request response)
                = (if isValidDataTypeKind (getKind d) then ReturnFilled else AssertUnknownKind)
              \<and> rsp_signature (snd (handleGetDataTypeInfoRequest mc reg dispatcher request response))
                  = getSignature d
              \<and> rsp_id (snd (handleGetDataTypeInfoRequest mc reg dispatcher request response))
                  = getID d
              \<and> rsp_kind (snd (handleGetDataTypeInfoRequest mc reg dispatcher request response))
                  = getKind d
              \<and> rsp_name (snd (handleGetDataTypeInfoRequest mc reg dispatcher request response))
                  = getFullName d
              \<and> bitSet (rsp_mask (snd (handleGetDataTypeInfoRequest mc reg dispatcher request
                    response))) (MASK_KNOWN mc))"
proof -
  have same: "handleGetDataTypeInfoRequest mc reg dispatcher
           (request\<lparr>req_id := i, req_kind := k\<rparr>) response
         = handleGetDataTypeInfoRequest mc reg dispatcher request response"
    using assms by (simp add: handleGetDataTypeInfoRequest_def)
  have unfolded: "handleGetDataTypeInfoRequest mc reg dispatcher request response
      = fillResponse mc dispatcher (find_by_name reg (c_str (req_name request)))
          (response\<lparr>rsp_name := req_name request\<rparr>)"
    using assms by (simp add: handleGetDataTypeInfoRequest_def)
  have known: "bitSet (rsp_mask (snd (fillResponse mc dispatcher (Some d) r))) (MASK_KNOWN mc)"
    for d r
    unfolding fillResponse_mask by (simp add: bitSet_self bitSet_or_left)
  show ?thesis
    unfolding unfolded
    by (simp add: same unfolded fillResponse_fields fillResponse_exit known split: option.split)
      (simp add: fillResponse_def)
qed

theorem gdti_name_query_invalid_kind_witness:
  "handleGetDataTypeInfoRequest sampleMaskConstants sampleRegistry sampleDispatcher
     \<lparr>req_id = 4711, req_kind = DataTypeKindOther 9, req_name = ''foo.Bar''\<rparr> blankGDTIResponse
   = (ReturnFilled,
      \<lparr>rsp_signature = 0xAABBCCDD11223344, rsp_id = 5, rsp_kind = DataTypeKindMessage,
       rsp_mask = 3, rsp_name = ''foo.Bar''\<rparr>)
   \<and> handleGetDataTypeInfoRequest sampleMaskConstants sampleRegistry sampleDispatcher
     \<lparr>req_id = 0, req_kind = DataTypeKindService, req_name = ''foo.Bar''\<rparr> blankGDTIResponse
   = (ReturnFilled,
      \<lparr>rsp_signature = 0xAABBCCDD11223344, rsp_id = 5, rsp_kind = DataTypeKindMessage,
       rsp_mask = 3, rsp_name = ''foo.Bar''\<rparr>)"
proof -
  have run: "handleGetDataTypeInfoRequest sampleMaskConstants sampleRegistry sampleDispatcher
     \<lparr>req_id = 4711, req_kind = DataTypeKindOther 9, req_name = ''foo.Bar''\<rparr> blankGDTIResponse
   = (ReturnFilled,
      \<lparr>rsp_signature = 0xAABBCCDD11223344, rsp_id = 5, rsp_kind = DataTypeKindMessage,
       rsp_mask = 3, rsp_name = ''foo.Bar''\<rparr>)"
    by (simp add: handleGetDataTypeInfoRequest_def fillResponse_def c_str_def
        find_by_name_def sampleRegistry_def sampleDispatcher_def sampleMaskConstants_def
        blankGDTIResponse_def)
  from gdti_name_query_ignores_id_and_kind
    [where request = "\<lparr>req_id = 4711, req_kind = DataTypeKindOther 9, req_name = ''foo.Bar''\<rparr>"
       and mc = sampleMaskConstants and reg = sampleRegistry and dispatcher = sampleDispatcher
       and i = 0 and k = DataTypeKindService and response = blankGDTIResponse]
  have "handleGetDataTypeInfoRequest sampleMaskConstants sampleRegistry sampleDispatcher
     \<lparr>req_id = 0, req_kind = DataTypeKindService, req_name = ''foo.Bar''\<rparr> blankGDTIResponse
    = handleGetDataTypeInfoRequest sampleMaskConstants sampleRegistry sampleDispatcher
     \<lparr>req_id = 4711, req_kind = DataTypeKindOther 9, req_name = ''foo.Bar''\<rparr> blankGDTIResponse"
    by simp
  with run show ?thesis by simp
qed

subsection \<open>The assertion of the last branch\<close>

text \<open>
  C9. If every descriptor in the registry has kind Message or Service, the handler of
  getDataTypeInfo never reaches the branch with \<^verbatim>\<open>UAVCAN_ASSERT(0)\<close>.
\<close>

theorem gdti_assertion_unreachable:
  assumes "\<forall>d \<in> set reg. getKind d = DataTypeKindMessage \<or> getKind d = DataTypeKindService"
  shows "fst (handleGetDataTypeInfoRequest mc reg dispatcher request response)
           \<noteq> AssertUnknownKind"
proof (cases "foundDescriptor reg request")
  case None
  from handler_not_found [OF this, of mc dispatcher response] show ?thesis by auto
next
  case (Some d)
  then have "d \<in> set reg" by (rule foundDescriptor_in_registry)
  with assms have "isValidDataTypeKind (getKind d)"
    by (simp add: isValidDataTypeKind_def)
  then show ?thesis
    by (simp add: handler_found [OF Some] fillResponse_exit)
qed

theorem gdti_assertion_unreachable_witness:
  "fst (handleGetDataTypeInfoRequest sampleMaskConstants sampleRegistry sampleDispatcher
        \<lparr>req_id = 1, req_kind = DataTypeKindMessage, req_name = []\<rparr> blankGDTIResponse)
      \<noteq> AssertUnknownKind"
proof -
  have valid: "\<forall>d \<in> set sampleRegistry.
       getKind d = DataTypeKindMessage \<or> getKind d = DataTypeKindService"
    by (simp add: sampleRegistry_def)
  from gdti_assertion_unreachable [OF valid] show ?thesis .
qed

text \<open>
  The branch is reached when the registry does hold a descriptor of another kind, so the
  hypothesis on the registry is what keeps it out of reach.
\<close>

lemma gdti_assertion_reachable_otherwise:
  "fst (handleGetDataTypeInfoRequest sampleMaskConstants
         [\<lparr>getKind = DataTypeKindOther 7, getID = 1, getSignature = 0, getFullName = ''x.Y''\<rparr>]
         sampleDispatcher \<lparr>req_id = 0, req_kind = DataTypeKindMessage, req_name = ''x.Y''\<rparr>
         blankGDTIResponse) = AssertUnknownKind"
  by (simp add: handleGetDataTypeInfoRequest_def fillResponse_def c_str_def find_by_name_def)

subsection \<open>The normalized mask\<close>



lemma cats_valid_unfold:
  assumes "isValidDataTypeKind (cats_kind request)"
  shows "handleComputeAggregateTypeSignatureRequest mix s0 maxv reg request response =
     \<lparr>aggregate_signature =
        computeAggregateSignature mix s0 reg (cats_kind request)
          (resize (normalizedLength maxv (cats_kind request)) (known_ids request)),
      mutually_known_ids =
        resize (normalizedLength maxv (cats_kind request)) (known_ids request)\<rparr>"
  using assms by (simp add: handleComputeAggregateTypeSignatureRequest_def Let_def)

lemma resize_examples:
  "resize 4 [True, False, True, True, True, True] = [True, False, True, True]"
  "resize 8 [True, False, True] = [True, False, True, False, False, False, False, False]"
  "resize 0 xs = []"
  by (simp_all add: resize_def numeral_eq_Suc)

lemma normalizedLength_examples:
  "normalizedLength smallMaxValue DataTypeKindService = 4"
  "normalizedLength smallMaxValue DataTypeKindMessage = 8"
  "normalizedLength scenarioMaxValue DataTypeKindMessage = 0"
  by (simp_all add: normalizedLength_def smallMaxValue_def scenarioMaxValue_def)



text \<open>
  The hypothesis on the size of the id-space is needed. Were the largest Message id
  65535, the sum 65536 would be cast to 16 bits as 0, and the mask would come back
  empty.
\<close>

lemma cats_mask_empty_at_largest_16_bit_id:
  "scenarioMaxValue DataTypeKindMessage + 1 = 65536
   \<and> mutually_known_ids
       (handleComputeAggregateTypeSignatureRequest (+) 0 scenarioMaxValue sampleRegistry
          \<lparr>cats_kind = DataTypeKindMessage, known_ids = [True, False, True]\<rparr>
          blankCATSResponse) = []
   \<and> length (mutually_known_ids
       (handleComputeAggregateTypeSignatureRequest (+) 0 scenarioMaxValue sampleRegistry
          \<lparr>cats_kind = DataTypeKindMessage, known_ids = [True, False, True]\<rparr>
          blankCATSResponse)) \<noteq> scenarioMaxValue DataTypeKindMessage + 1"
proof -
  let ?request = "\<lparr>cats_kind = DataTypeKindMessage, known_ids = [True, False, True]\<rparr>"
  have valid: "isValidDataTypeKind (cats_kind ?request)"
    by (simp add: isValidDataTypeKind_def)
  have limit: "scenarioMaxValue DataTypeKindMessage + 1 = 65536"
    by (simp add: scenarioMaxValue_def)
  have mask: "mutually_known_ids
       (handleComputeAggregateTypeSignatureRequest (+) 0 scenarioMaxValue sampleRegistry
          ?request blankCATSResponse) = []"
    by (simp add: cats_valid_unfold [OF valid] normalizedLength_examples resize_examples)
  show ?thesis
    unfolding mask limit by simp
qed

subsection \<open>Starting the provider: both handlers or none\<close>

text \<open>
  C7. \<^verbatim>\<open>start()\<close> registers the two handlers one after the other. If the first
  registration fails, or the first succeeds and the second fails, \<^verbatim>\<open>start()\<close> returns
  the negative code of the failed registration and both servers have been stopped, so
  neither handler is registered; if both succeed it returns the non-negative code of the
  second and both handlers are registered. In every case the two handlers are both
  registered or both unregistered. A successful \<^verbatim>\<open>ServiceServer::start\<close> is taken to
  leave its handler registered; a failed one may leave the server in any state.
\<close>

theorem start_registers_both_or_none:
  assumes cats_ok: "\<forall>srv. 0 \<le> fst (cats_start srv) \<longrightarrow> handler_registered (snd (cats_start srv))"
    and gdti_ok: "\<forall>srv. 0 \<le> fst (gdti_start srv) \<longrightarrow> handler_registered (snd (gdti_start srv))"
  shows "(if fst (cats_start (cats_srv this)) < 0 then
            fst (start cats_start gdti_start this) = fst (cats_start (cats_srv this))
            \<and> fst (start cats_start gdti_start this) < 0
            \<and> \<not> handler_registered (cats_srv (snd (start cats_start gdti_start this)))
            \<and> \<not> handler_registered (gdti_srv (snd (start cats_start gdti_start this)))
          else if fst (gdti_start (gdti_srv this)) < 0 then
            fst (start cats_start gdti_start this) = fst (gdti_start (gdti_srv this))
            \<and> fst (start cats_start gdti_start this) < 0
            \<and> \<not> handler_registered (cats_srv (snd (start cats_start gdti_start this)))
            \<and> \<not> handler_registered (gdti_srv (snd (start cats_start gdti_start this)))
          else
            fst (start cats_start gdti_start this) = fst (gdti_start (gdti_srv this))
            \<and> 0 \<le> fst (start cats_start gdti_start this)
            \<and> handler_registered (cats_srv (snd (start cats_start gdti_start this)))
            \<and> handler_registered (gdti_srv (snd (start cats_start gdti_start this))))
       \<and> (handler_registered (cats_srv (snd (start cats_start gdti_start this)))
            \<longleftrightarrow> handler_registered (gdti_srv (snd (start cats_start gdti_start this))))"
proof -
  obtain r1 s1 where c: "cats_start (cats_srv this) = (r1, s1)"
    by (cases "cats_start (cats_srv this)")
  obtain r2 s2 where g: "gdti_start (gdti_srv this) = (r2, s2)"
    by (cases "gdti_start (gdti_srv this)")
  from cats_ok c have s1: "0 \<le> r1 \<Longrightarrow> handler_registered s1"
    by (metis fst_conv snd_conv)
  from gdti_ok g have s2: "0 \<le> r2 \<Longrightarrow> handler_registered s2"
    by (metis fst_conv snd_conv)
  show ?thesis
    using s1 s2
    by (simp add: start_def start_fail_def ServiceServer_stop_def c g Let_def)
qed

theorem start_rollback_witness:
  "fst (start (\<lambda>srv. (0, srv\<lparr>handler_registered := True\<rparr>))
          (\<lambda>srv. (- 3, srv\<lparr>handler_registered := True\<rparr>))
          \<lparr>cats_srv = \<lparr>handler_registered = False\<rparr>,
           gdti_srv = \<lparr>handler_registered = False\<rparr>\<rparr>) = - 3
   \<and> \<not> handler_registered (cats_srv (snd
        (start (\<lambda>srv. (0, srv\<lparr>handler_registered := True\<rparr>))
          (\<lambda>srv. (- 3, srv\<lparr>handler_registered := True\<rparr>))
          \<lparr>cats_srv = \<lparr>handler_registered = False\<rparr>,
           gdti_srv = \<lparr>handler_registered = False\<rparr>\<rparr>)))
   \<and> \<not> handler_registered (gdti_srv (snd
        (start (\<lambda>srv. (0, srv\<lparr>handler_registered := True\<rparr>))
          (\<lambda>srv. (- 3, srv\<lparr>handler_registered := True\<rparr>))
          \<lparr>cats_srv = \<lparr>handler_registered = False\<rparr>,
           gdti_srv = \<lparr>handler_registered = False\<rparr>\<rparr>)))
   \<and> fst (start (\<lambda>srv. (0, srv\<lparr>handler_registered := True\<rparr>))
          (\<lambda>srv. (5, srv\<lparr>handler_registered := True\<rparr>))
          \<lparr>cats_srv = \<lparr>handler_registered = False\<rparr>,
           gdti_srv = \<lparr>handler_registered = False\<rparr>\<rparr>) = 5
   \<and> handler_registered (cats_srv (snd
        (start (\<lambda>srv. (0, srv\<lparr>handler_registered := True\<rparr>))
          (\<lambda>srv. (5, srv\<lparr>handler_registered := True\<rparr>))
          \<lparr>cats_srv = \<lparr>handler_registered = False\<rparr>,
           gdti_srv = \<lparr>handler_registered = False\<rparr>\<rparr>)))
   \<and> handler_registered (gdti_srv (snd
        (start (\<lambda>srv. (0, srv\<lparr>handler_registered := True\<rparr>))
          (\<lambda>srv. (5, srv\<lparr>handler_registered := True\<rparr>))
          \<lparr>cats_srv = \<lparr>handler_registered = False\<rparr>,
           gdti_srv = \<lparr>handler_registered = False\<rparr>\<rparr>)))"
  using start_registers_both_or_none
      [where cats_start = "\<lambda>srv. (0, srv\<lparr>handler_registered := True\<rparr>)"
         and gdti_start = "\<lambda>srv. (- 3, srv\<lparr>handler_registered := True\<rparr>)"
         and this = "\<lparr>cats_srv = \<lparr>handler_registered = False\<rparr>,
                       gdti_srv = \<lparr>handler_registered = False\<rparr>\<rparr>"]
    start_registers_both_or_none
      [where cats_start = "\<lambda>srv. (0, srv\<lparr>handler_registered := True\<rparr>)"
         and gdti_start = "\<lambda>srv. (5, srv\<lparr>handler_registered := True\<rparr>)"
         and this = "\<lparr>cats_srv = \<lparr>handler_registered = False\<rparr>,
                       gdti_srv = \<lparr>handler_registered = False\<rparr>\<rparr>"]
  by simp

subsection \<open>The aggregate signature\<close>








lemma normalizedLength_le: "normalizedLength maxv kind \<le> 2 ^ 16"
  by (simp add: normalizedLength_def less_imp_le)




text \<open>The aggregate of the Message types of the sample registry, evaluated.\<close>

lemma sample_aggregate:
  "computeAggregateSignature (+) 0 sampleRegistry DataTypeKindMessage
     [True, False, True, False, False, False, False, False] = 0xBBCCDDEE22334455"
proof -
  have upt: "[0 ..< 8] = [0, 1, 2, 3, 4, 5, 6, 7]"
    by (simp add: upt_rec)
  show ?thesis
    by (simp add: computeAggregateSignature_def upt find_by_id_def sampleRegistry_def)
qed


subsection \<open>Determinism\<close>

text \<open>
  The response of a handler on the state of the node is a function of the status of
  registry and dispatcher in the state it starts from, and the handler leaves that
  status as it found it.
\<close>

lemma fst_calls:
  "fst (call_find_id calls kind dtid w) = ans_find_id (observed calls w) kind dtid"
  "fst (call_find_name calls nm w) = ans_find_name (observed calls w) nm"
  "fst (call_computeAggregateSignature calls kind ids w)
     = ans_computeAggregateSignature (observed calls w) kind ids"
  "fst (call_hasServer calls dtid w) = ans_hasServer (observed calls w) dtid"
  "fst (call_hasSubscriber calls dtid w) = ans_hasSubscriber (observed calls w) dtid"
  "fst (call_hasPublisher calls dtid w) = ans_hasPublisher (observed calls w) dtid"
  by (simp_all add: observed_def)

lemma unchanged_calls:
  assumes "callsLeaveStatusUnchanged calls"
  shows "observed calls (snd (call_find_id calls kind dtid w)) = observed calls w"
    "observed calls (snd (call_find_name calls nm w)) = observed calls w"
    "observed calls (snd (call_computeAggregateSignature calls kind ids w)) = observed calls w"
    "observed calls (snd (call_hasServer calls dtid w)) = observed calls w"
    "observed calls (snd (call_hasSubscriber calls dtid w)) = observed calls w"
    "observed calls (snd (call_hasPublisher calls dtid w)) = observed calls w"
  using assms by (simp_all add: callsLeaveStatusUnchanged_def)

lemma cats_st_response:
  "fst (handleComputeAggregateTypeSignatureRequest_st calls maxv request response w) =
     (if \<not> isValidDataTypeKind (cats_kind request) then response
      else response\<lparr>mutually_known_ids :=
             snd (ans_computeAggregateSignature (observed calls w) (cats_kind request)
                    (resize (normalizedLength maxv (cats_kind request)) (known_ids request))),
           aggregate_signature :=
             fst (ans_computeAggregateSignature (observed calls w) (cats_kind request)
                    (resize (normalizedLength maxv (cats_kind request)) (known_ids request)))\<rparr>)"
  by (simp add: handleComputeAggregateTypeSignatureRequest_st_def Let_def split_beta fst_calls)

lemma cats_st_status:
  assumes "callsLeaveStatusUnchanged calls"
  shows "observed calls (snd (handleComputeAggregateTypeSignatureRequest_st calls maxv request response w))
       = observed calls w"
  by (simp add: handleComputeAggregateTypeSignatureRequest_st_def Let_def split_beta
      unchanged_calls [OF assms])

lemma fill_st_status:
  assumes "callsLeaveStatusUnchanged calls"
  shows "observed calls (snd (fillResponse_st calls mc desc response w)) = observed calls w"
  by (simp add: fillResponse_st_def Let_def split_beta unchanged_calls [OF assms]
      split: option.split)

lemma fill_st_response:
  assumes "callsLeaveStatusUnchanged calls"
  shows "fst (fillResponse_st calls mc desc response w) =
     fillResponse mc
       \<lparr>hasServer = ans_hasServer (observed calls w),
        hasSubscriber = ans_hasSubscriber (observed calls w),
        hasPublisher = ans_hasPublisher (observed calls w)\<rparr> desc response"
  by (simp add: fillResponse_st_def fillResponse_def Let_def split_beta fst_calls
      unchanged_calls [OF assms] split: option.split)

lemma gdti_st_status:
  assumes "callsLeaveStatusUnchanged calls"
  shows "observed calls (snd (handleGetDataTypeInfoRequest_st calls mc request response w))
       = observed calls w"
  by (simp add: handleGetDataTypeInfoRequest_st_def Let_def split_beta fill_st_status [OF assms]
      unchanged_calls [OF assms])

lemma gdti_st_response:
  assumes "callsLeaveStatusUnchanged calls"
  shows "fst (handleGetDataTypeInfoRequest_st calls mc request response w) =
     (if req_name request = [] then
        if \<not> isValidDataTypeKind (req_kind request)
        then (ReturnInvalidKind, response\<lparr>rsp_id := req_id request, rsp_kind := req_kind request\<rparr>)
        else fillResponse mc
               \<lparr>hasServer = ans_hasServer (observed calls w),
                hasSubscriber = ans_hasSubscriber (observed calls w),
                hasPublisher = ans_hasPublisher (observed calls w)\<rparr>
               (ans_find_id (observed calls w) (req_kind request) (req_id request))
               (response\<lparr>rsp_id := req_id request, rsp_kind := req_kind request\<rparr>)
      else fillResponse mc
               \<lparr>hasServer = ans_hasServer (observed calls w),
                hasSubscriber = ans_hasSubscriber (observed calls w),
                hasPublisher = ans_hasPublisher (observed calls w)\<rparr>
               (ans_find_name (observed calls w) (c_str (req_name request)))
               (response\<lparr>rsp_name := req_name request\<rparr>))"
  by (simp add: handleGetDataTypeInfoRequest_st_def Let_def split_beta fill_st_response [OF assms]
      unchanged_calls [OF assms] fst_calls)

lemma observed_countingCalls:
  "observed (countingCalls mix s0 reg dispatcher) n = answersOf mix s0 reg dispatcher"
  by (simp add: observed_def countingCalls_def answersOf_def)

lemma countingCalls_unchanged: "callsLeaveStatusUnchanged (countingCalls mix s0 reg dispatcher)"
  by (simp add: callsLeaveStatusUnchanged_def observed_countingCalls)

text \<open>
  In a state in which registry and dispatcher answer as a given list of descriptors and a
  given dispatcher do, the handlers on the state of the node produce the responses of the
  handlers defined first.
\<close>

lemma st_agrees_with_handlers:
  assumes unchanged: "callsLeaveStatusUnchanged calls"
    and status: "observed calls w = answersOf mix s0 reg dispatcher"
  shows "fst (handleComputeAggregateTypeSignatureRequest_st calls maxv cats_request cats_response w)
         = handleComputeAggregateTypeSignatureRequest mix s0 maxv reg cats_request cats_response"
    and "fst (handleGetDataTypeInfoRequest_st calls mc request response w)
         = handleGetDataTypeInfoRequest mc reg dispatcher request response"
proof -
  have disp: "\<lparr>hasServer = hasServer dispatcher, hasSubscriber = hasSubscriber dispatcher,
      hasPublisher = hasPublisher dispatcher\<rparr> = dispatcher"
    by simp
  show "fst (handleComputeAggregateTypeSignatureRequest_st calls maxv cats_request cats_response w)
         = handleComputeAggregateTypeSignatureRequest mix s0 maxv reg cats_request cats_response"
    by (simp add: cats_st_response status answersOf_def
        handleComputeAggregateTypeSignatureRequest_def Let_def)
  show "fst (handleGetDataTypeInfoRequest_st calls mc request response w)
         = handleGetDataTypeInfoRequest mc reg dispatcher request response"
    by (simp add: gdti_st_response [OF unchanged] status answersOf_def disp
        handleGetDataTypeInfoRequest_def Let_def)
qed

text \<open>
  C8. Both handlers are deterministic in the status of the registry and of the
  dispatcher. When no call to the registry or to the dispatcher changes what they answer,
  a handler invoked a second time for the same request and on the same response as
  passed in the first time, in the state of the node that the first invocation left,
  produces the same response as the first invocation. More generally, invocations for the
  same request on the same response in any two states of the node in which registry and
  dispatcher answer alike produce the same response.
\<close>

theorem handlers_deterministic_in_status:
  assumes unchanged: "callsLeaveStatusUnchanged calls"
    and same: "observed calls w' = observed calls w"
  shows "fst (handleComputeAggregateTypeSignatureRequest_st calls maxv cats_request cats_response
               (snd (handleComputeAggregateTypeSignatureRequest_st calls maxv cats_request
                       cats_response w)))
         = fst (handleComputeAggregateTypeSignatureRequest_st calls maxv cats_request cats_response w)
       \<and> fst (handleGetDataTypeInfoRequest_st calls mc request response
               (snd (handleGetDataTypeInfoRequest_st calls mc request response w)))
         = fst (handleGetDataTypeInfoRequest_st calls mc request response w)
       \<and> fst (handleComputeAggregateTypeSignatureRequest_st calls maxv cats_request cats_response w')
         = fst (handleComputeAggregateTypeSignatureRequest_st calls maxv cats_request cats_response w)
       \<and> fst (handleGetDataTypeInfoRequest_st calls mc request response w')
         = fst (handleGetDataTypeInfoRequest_st calls mc request response w)"
  by (simp only: cats_st_response gdti_st_response [OF unchanged] cats_st_status [OF unchanged]
      gdti_st_status [OF unchanged] same simp_thms)

theorem handlers_deterministic_witness:
  "fst (handleGetDataTypeInfoRequest_st
          (countingCalls (+) 0 sampleRegistry sampleDispatcher) sampleMaskConstants
          \<lparr>req_id = 5, req_kind = DataTypeKindMessage, req_name = []\<rparr> blankGDTIResponse
          (snd (handleGetDataTypeInfoRequest_st
                  (countingCalls (+) 0 sampleRegistry sampleDispatcher) sampleMaskConstants
                  \<lparr>req_id = 5, req_kind = DataTypeKindMessage, req_name = []\<rparr>
                  blankGDTIResponse 0)))
    = fst (handleGetDataTypeInfoRequest_st
          (countingCalls (+) 0 sampleRegistry sampleDispatcher) sampleMaskConstants
          \<lparr>req_id = 5, req_kind = DataTypeKindMessage, req_name = []\<rparr> blankGDTIResponse 0)
   \<and> snd (handleGetDataTypeInfoRequest_st
          (countingCalls (+) 0 sampleRegistry sampleDispatcher) sampleMaskConstants
          \<lparr>req_id = 5, req_kind = DataTypeKindMessage, req_name = []\<rparr> blankGDTIResponse 0)
      = 3"
proof -
  have changed: "snd (handleGetDataTypeInfoRequest_st
          (countingCalls (+) 0 sampleRegistry sampleDispatcher) sampleMaskConstants
          \<lparr>req_id = 5, req_kind = DataTypeKindMessage, req_name = []\<rparr> blankGDTIResponse 0)
      = 3"
    by (simp add: handleGetDataTypeInfoRequest_st_def fillResponse_st_def countingCalls_def
        isValidDataTypeKind_def find_by_id_def sampleRegistry_def Let_def numeral_3_eq_3)
  have unchanged:
    "callsLeaveStatusUnchanged (countingCalls (+) 0 sampleRegistry sampleDispatcher)"
    by (rule countingCalls_unchanged)
  from handlers_deterministic_in_status
    [OF unchanged refl,
     where mc = sampleMaskConstants and response = blankGDTIResponse and w = 0
       and request = "\<lparr>req_id = 5, req_kind = DataTypeKindMessage, req_name = []\<rparr>"]
    changed
  show ?thesis by simp
qed

end
